theory Spec2Isabelle
  imports Complex_Main "HOL-Library.AList"
begin

section \<open>JSON values and the Python operations applied to them\<close>

text \<open>
  The program (\<^verbatim>\<open>chemo-streamlit-app.py\<close>) walks the value that \<^verbatim>\<open>json.loads\<close>
  returned with plain keyed access. The model therefore works on JSON values as Python
  holds them: \<^verbatim>\<open>None\<close>, \<^verbatim>\<open>bool\<close>, \<^verbatim>\<open>int\<close>, \<^verbatim>\<open>float\<close>, \<^verbatim>\<open>str\<close>, \<^verbatim>\<open>list\<close> and
  \<^verbatim>\<open>dict\<close> with string keys. A dict is an association list read with \<open>map_of\<close>.
  Every exception the source can raise and does not catch is a value \<open>Inl e\<close>.
\<close>

datatype pyfloat = Finite rat | PosInf | NegInf | NaN

datatype json =
    JNull
  | JBool bool
  | JInt int
  | JFloat pyfloat
  | JStr string
  | JArr "json list"
  | JObj "(string \<times> json) list"

datatype error =
    KeyError
  | TypeError
  | AttributeError
  | IndexError
  | ValueError
  | OverflowError
  | RecursionError
  | JSONDecodeError
  | External string

text \<open>Truth value of an object (\<^verbatim>\<open>not regimen_data\<close>).\<close>

fun py_truthy :: "json \<Rightarrow> bool" where
  "py_truthy JNull = False"
| "py_truthy (JBool b) = b"
| "py_truthy (JInt i) = (i \<noteq> 0)"
| "py_truthy (JFloat f) = (f \<noteq> Finite 0)"
| "py_truthy (JStr s) = (s \<noteq> [])"
| "py_truthy (JArr xs) = (xs \<noteq> [])"
| "py_truthy (JObj kvs) = (kvs \<noteq> [])"

text \<open>\<^verbatim>\<open>k in s\<close> for two strings: \<open>k\<close> occurs in \<open>s\<close> as a contiguous piece.\<close>

fun str_contains :: "string \<Rightarrow> string \<Rightarrow> bool" where
  "str_contains k [] = (k = [])"
| "str_contains k (c # s) = (take (length k) (c # s) = k \<or> str_contains k s)"

text \<open>
  \<^verbatim>\<open>k in x\<close> for a string literal \<open>k\<close>: key membership on a dict, element membership on
  a list, substring on a string, \<^verbatim>\<open>TypeError\<close> on anything else.
\<close>

fun py_contains :: "string \<Rightarrow> json \<Rightarrow> error + bool" where
  "py_contains k (JObj kvs) = Inr (map_of kvs k \<noteq> None)"
| "py_contains k (JArr xs) = Inr (JStr k \<in> set xs)"
| "py_contains k (JStr s) = Inr (str_contains k s)"
| "py_contains k _ = Inl TypeError"

text \<open>
  \<^verbatim>\<open>x[k]\<close> for a string literal \<open>k\<close>: \<^verbatim>\<open>KeyError\<close> on a dict without the key,
  \<^verbatim>\<open>TypeError\<close> on a list or string (indices must be integers) and on every value
  that is not subscriptable.
\<close>

fun py_getitem :: "json \<Rightarrow> string \<Rightarrow> error + json" where
  "py_getitem (JObj kvs) k = (case map_of kvs k of None \<Rightarrow> Inl KeyError | Some v \<Rightarrow> Inr v)"
| "py_getitem _ k = Inl TypeError"

text \<open>\<^verbatim>\<open>x.get(k, default)\<close>: only a dict has the method.\<close>

fun py_get :: "json \<Rightarrow> string \<Rightarrow> json \<Rightarrow> error + json" where
  "py_get (JObj kvs) k d = Inr (case map_of kvs k of None \<Rightarrow> d | Some v \<Rightarrow> v)"
| "py_get _ k d = Inl AttributeError"

text \<open>\<^verbatim>\<open>len(x)\<close>.\<close>

fun py_len :: "json \<Rightarrow> error + nat" where
  "py_len (JStr s) = Inr (length s)"
| "py_len (JArr xs) = Inr (length xs)"
| "py_len (JObj kvs) = Inr (length (remdups (map fst kvs)))"
| "py_len _ = Inl TypeError"

text \<open>
  \<^verbatim>\<open>x[0]\<close>: the first element of a list, the first character of a string; a dict
  parsed from JSON has string keys only, so the key \<open>0\<close> is never present.
\<close>

fun py_getitem0 :: "json \<Rightarrow> error + json" where
  "py_getitem0 (JArr []) = Inl IndexError"
| "py_getitem0 (JArr (x # xs)) = Inr x"
| "py_getitem0 (JStr []) = Inl IndexError"
| "py_getitem0 (JStr (c # s)) = Inr (JStr [c])"
| "py_getitem0 (JObj kvs) = Inl KeyError"
| "py_getitem0 _ = Inl TypeError"

text \<open>
  The elements a \<^verbatim>\<open>for\<close> statement visits: list elements, the characters of a string,
  the keys of a dict.
\<close>

fun py_iter :: "json \<Rightarrow> error + json list" where
  "py_iter (JArr xs) = Inr xs"
| "py_iter (JStr s) = Inr (map (\<lambda>c. JStr [c]) s)"
| "py_iter (JObj kvs) = Inr (map JStr (remdups (map fst kvs)))"
| "py_iter _ = Inl TypeError"

text \<open>
  \<^verbatim>\<open>a + b\<close> as line 94-98 uses it: list concatenation (or string concatenation).
  Every other pair either raises \<^verbatim>\<open>TypeError\<close> at the \<^verbatim>\<open>+\<close> or yields a number, on
  which the \<^verbatim>\<open>for\<close> statement of line 100 raises \<^verbatim>\<open>TypeError\<close> before anything else
  happens; both are the same outcome here.
\<close>

fun py_add :: "json \<Rightarrow> json \<Rightarrow> error + json" where
  "py_add (JArr xs) (JArr ys) = Inr (JArr (xs @ ys))"
| "py_add (JStr s) (JStr t) = Inr (JStr (s @ t))"
| "py_add _ _ = Inl TypeError"

text \<open>
  \<^verbatim>\<open>int(x)\<close>. Reading an integer out of a string is Python's own parser, taken as the
  parameter \<open>int_of_str\<close> (\<open>None\<close> where it raises \<^verbatim>\<open>ValueError\<close>). A finite float is
  truncated towards zero.
\<close>

fun py_int :: "(string \<Rightarrow> int option) \<Rightarrow> json \<Rightarrow> error + int" where
  "py_int int_of_str (JInt i) = Inr i"
| "py_int int_of_str (JBool b) = Inr (if b then 1 else 0)"
| "py_int int_of_str (JFloat (Finite q)) = Inr (if 0 \<le> q then \<lfloor>q\<rfloor> else \<lceil>q\<rceil>)"
| "py_int int_of_str (JFloat NaN) = Inl ValueError"
| "py_int int_of_str (JFloat f) = Inl OverflowError"
| "py_int int_of_str (JStr s) = (case int_of_str s of None \<Rightarrow> Inl ValueError | Some i \<Rightarrow> Inr i)"
| "py_int int_of_str _ = Inl TypeError"

text \<open>
  A value used as a dict key. Python identifies keys that compare equal, so \<open>1\<close>,
  \<open>1.0\<close> and \<open>True\<close> are one key; lists and dicts are unhashable (\<open>None\<close> here, a
  \<^verbatim>\<open>TypeError\<close> in the program).
\<close>

datatype pykey = KNone | KNum rat | KPosInf | KNegInf | KNaN | KStr string

fun py_key :: "json \<Rightarrow> pykey option" where
  "py_key JNull = Some KNone"
| "py_key (JBool b) = Some (KNum (if b then 1 else 0))"
| "py_key (JInt i) = Some (KNum (of_int i))"
| "py_key (JFloat (Finite q)) = Some (KNum q)"
| "py_key (JFloat PosInf) = Some KPosInf"
| "py_key (JFloat NegInf) = Some KNegInf"
| "py_key (JFloat NaN) = Some KNaN"
| "py_key (JStr s) = Some (KStr s)"
| "py_key (JArr xs) = None"
| "py_key (JObj kvs) = None"

section \<open>The drug-knowledge service\<close>

text \<open>
  The outside world answers the program's calls one after the other. It is a script:
  \<open>http w i\<close> is what the \<open>i\<close>-th external call gets when it is an HTTP request,
  \<open>complete w i\<close> when it is a completion request, and \<open>now w i\<close> is the clock read
  for it. The index is the number of external calls made before (the length of the call
  log). A theorem for every \<open>w\<close> holds for every behaviour of the collaborators.

  \<^verbatim>\<open>requests.get\<close> either raises or returns a response; a response has a status code,
  the text of the \<^verbatim>\<open>HTTPError\<close> that \<^verbatim>\<open>raise_for_status\<close> would raise for it, and
  what \<^verbatim>\<open>response.json()\<close> does. An exception is a \<^verbatim>\<open>RequestException\<close> (with its
  message and the status code of its response, if it has one) or anything else.
\<close>

datatype exn = RequestException string "nat option" | OtherException error

datatype http_result = Raises exn | Response nat string "exn + json"

datatype endpoint = PrescribableDrugs | Interactions json | DoseRecords json

record request =
  req_endpoint :: endpoint
  req_params :: "(string \<times> json) list"
  req_authorization :: string

datatype call = Extract string | Complete string | Http request

record world =
  http :: "nat \<Rightarrow> http_result"
  now :: "nat \<Rightarrow> string"
  complete :: "nat \<Rightarrow> error + string"

text \<open>The two dictionaries that \<^verbatim>\<open>make_fdb_request\<close> returns (lines 54-58 and 60-64).\<close>

definition fdb_success :: "json \<Rightarrow> nat \<Rightarrow> json" where
  "fdb_success d code =
     JObj [(''status'', JStr ''success''), (''data'', d), (''status_code'', JInt (int code))]"

definition fdb_error :: "string \<Rightarrow> nat option \<Rightarrow> json" where
  "fdb_error msg sc =
     JObj [(''status'', JStr ''error''),
           (''message'', JStr msg),
           (''status_code'', (case sc of None \<Rightarrow> JNull | Some c \<Rightarrow> JInt (int c)))]"

text \<open>
  The \<^verbatim>\<open>except requests.exceptions.RequestException\<close> clause of lines 59-64: a request
  exception becomes the error dictionary, any other exception leaves the function.
\<close>

fun fdb_except :: "exn \<Rightarrow> error + json" where
  "fdb_except (RequestException msg sc) = Inr (fdb_error msg sc)"
| "fdb_except (OtherException e) = Inl e"

text \<open>
  \<^verbatim>\<open>make_fdb_request\<close> (lines 31-64). The request is kept in its parts: the endpoint
  (the two f-strings of lines 124 and 131 carry the drug identifier), the parameters
  after lines 36-37 and the \<^verbatim>\<open>Authorization\<close> header; the URL of lines 46-49 is a
  function of them (building it is taken as total: the strings of the model are always
  encodable, so \<^verbatim>\<open>quote\<close> does not raise). The call is logged, then answered by the world;
  \<^verbatim>\<open>raise_for_status\<close> raises an \<^verbatim>\<open>HTTPError\<close> (a request exception carrying the
  response) for a status code from 400 to 599.
\<close>

definition make_fdb_request ::
  "world \<Rightarrow> endpoint \<Rightarrow> string \<Rightarrow> string \<Rightarrow> (string \<times> json) list option
     \<Rightarrow> call list \<Rightarrow> (error + json) \<times> call list" where
  "make_fdb_request w ep client_id client_secret params lg =
     (let i = length lg;
          params0 = (case params of None \<Rightarrow> [] | Some p \<Rightarrow> p);
          params1 = AList.update ''callSystemName'' (JStr ''ChemoAnalyzer'') params0;
          params2 = AList.update ''callid'' (JStr (now w i)) params1;
          req = \<lparr>req_endpoint = ep, req_params = params2,
                 req_authorization = ''SHAREDKEY '' @ client_id @ '':'' @ client_secret\<rparr>;
          lg' = lg @ [Http req]
      in (case http w i of
            Raises e \<Rightarrow> (fdb_except e, lg')
          | Response code msg body \<Rightarrow>
              if 400 \<le> code \<and> code < 600
              then (fdb_except (RequestException msg (Some code)), lg')
              else (case body of
                      Inl e \<Rightarrow> (fdb_except e, lg')
                    | Inr d \<Rightarrow> (Inr (fdb_success d code), lg'))))"

section \<open>Enrichment: \<^verbatim>\<open>validate_regimen_with_fdb\<close>\<close>

text \<open>
  The test of line 117, \<^verbatim>\<open>result["status"] == "success" and "data" in result\<close>.
\<close>

definition is_success :: "json \<Rightarrow> bool" where
  "is_success result \<longleftrightarrow>
     py_getitem result ''status'' = Inr (JStr ''success'') \<and>
     py_contains ''data'' result = Inr True"

text \<open>
  Lines 119-120 on the search data: \<open>Inr None\<close> when there is no \<^verbatim>\<open>Items\<close> or it is
  empty, otherwise the first item and its \<^verbatim>\<open>PrescribableDrugID\<close>.
\<close>

definition first_match :: "json \<Rightarrow> error + (json \<times> json) option" where
  "first_match drug_data =
     (case py_contains ''Items'' drug_data of
        Inl e \<Rightarrow> Inl e
      | Inr False \<Rightarrow> Inr None
      | Inr True \<Rightarrow>
          (case py_getitem drug_data ''Items'' of
             Inl e \<Rightarrow> Inl e
           | Inr items \<Rightarrow>
               (case py_len items of
                  Inl e \<Rightarrow> Inl e
                | Inr n \<Rightarrow>
                    if n > 0 then
                      (case py_getitem0 items of
                         Inl e \<Rightarrow> Inl e
                       | Inr item \<Rightarrow>
                           (case py_getitem item ''PrescribableDrugID'' of
                              Inl e \<Rightarrow> Inl e
                            | Inr drug_id \<Rightarrow> Inr (Some (item, drug_id))))
                    else Inr None)))"

text \<open>
  \<^verbatim>\<open>validation_results\<close> is a dict keyed by medication name: an association list on
  the keys' identity, written with \<open>AList.update\<close> (a new key goes to the end, an old
  key keeps its place) and read with \<open>map_of\<close>.
\<close>

type_synonym results = "(pykey \<times> json) list"

text \<open>The entry of lines 136-140.\<close>

definition entry :: "json \<Rightarrow> json \<Rightarrow> json \<Rightarrow> json" where
  "entry item interactions dosing =
     JObj [(''drug_info'', item), (''interactions'', interactions), (''dosing'', dosing)]"

text \<open>\<^verbatim>\<open>r.get("data", {})\<close> on a dictionary that \<^verbatim>\<open>make_fdb_request\<close> returned.\<close>

definition get_data :: "json \<Rightarrow> json" where
  "get_data r = (case py_get r ''data'' (JObj []) of Inl e \<Rightarrow> JObj [] | Inr d \<Rightarrow> d)"

text \<open>The body of the loop of line 100, for one medication (lines 101-140).\<close>

definition validate_med ::
  "world \<Rightarrow> string \<Rightarrow> string \<Rightarrow> json \<Rightarrow> results \<times> call list
     \<Rightarrow> (error + results) \<times> call list" where
  "validate_med w client_id client_secret med st =
     (case st of (validation_results, lg) \<Rightarrow>
      (case py_getitem med ''name'' of
         Inl e \<Rightarrow> (Inl e, lg)
       | Inr med_name \<Rightarrow>
           (let search_params = [(''searchtext'', med_name),
                                 (''searchtype'', JStr ''contains''),
                                 (''limit'', JStr ''1'')]
            in (case make_fdb_request w PrescribableDrugs client_id client_secret
                       (Some search_params) lg of
                  (Inl e, lg1) \<Rightarrow> (Inl e, lg1)
                | (Inr result, lg1) \<Rightarrow>
                    if is_success result then
                      (case py_getitem result ''data'' of
                         Inl e \<Rightarrow> (Inl e, lg1)
                       | Inr drug_data \<Rightarrow>
                           (case first_match drug_data of
                              Inl e \<Rightarrow> (Inl e, lg1)
                            | Inr None \<Rightarrow> (Inr validation_results, lg1)
                            | Inr (Some (item, drug_id)) \<Rightarrow>
                                (case make_fdb_request w (Interactions drug_id)
                                        client_id client_secret None lg1 of
                                   (Inl e, lg2) \<Rightarrow> (Inl e, lg2)
                                 | (Inr interactions, lg2) \<Rightarrow>
                                     (case make_fdb_request w (DoseRecords drug_id)
                                             client_id client_secret None lg2 of
                                        (Inl e, lg3) \<Rightarrow> (Inl e, lg3)
                                      | (Inr dosing, lg3) \<Rightarrow>
                                          (case py_key med_name of
                                             None \<Rightarrow> (Inl TypeError, lg3)
                                           | Some k \<Rightarrow>
                                               (Inr (AList.update k
                                                       (entry item (get_data interactions)
                                                          (get_data dosing))
                                                       validation_results), lg3))))))
                    else (Inr validation_results, lg1)))))"

text \<open>The loop of line 100: an exception ends it.\<close>

fun validate_loop ::
  "world \<Rightarrow> string \<Rightarrow> string \<Rightarrow> json list \<Rightarrow> results \<times> call list
     \<Rightarrow> (error + results) \<times> call list" where
  "validate_loop w client_id client_secret [] st = (Inr (fst st), snd st)"
| "validate_loop w client_id client_secret (med # meds) st =
     (case validate_med w client_id client_secret med st of
        (Inl e, lg) \<Rightarrow> (Inl e, lg)
      | (Inr validation_results, lg) \<Rightarrow>
          validate_loop w client_id client_secret meds (validation_results, lg))"

text \<open>
  Line 93: the day-1 schedule, the only one the function reads.
\<close>

definition day1_medications :: "json \<Rightarrow> error + json" where
  "day1_medications regimen_data =
     (case py_getitem regimen_data ''phase1'' of Inl e \<Rightarrow> Inl e | Inr p \<Rightarrow>
      (case py_getitem p ''treatmentTemplate'' of Inl e \<Rightarrow> Inl e | Inr t \<Rightarrow>
       (case py_getitem t ''cycle'' of Inl e \<Rightarrow> Inl e | Inr c \<Rightarrow>
        (case py_getitem c ''medications'' of Inl e \<Rightarrow> Inl e | Inr m \<Rightarrow>
           py_getitem m ''day1''))))"

text \<open>Lines 94-98 and the iteration of line 100 over the sum.\<close>

definition all_meds :: "json \<Rightarrow> error + json list" where
  "all_meds medications =
     (case py_get medications ''pretreatmentMedications'' (JArr []) of Inl e \<Rightarrow> Inl e | Inr a \<Rightarrow>
      (case py_get medications ''chemotherapy'' (JArr []) of Inl e \<Rightarrow> Inl e | Inr b \<Rightarrow>
       (case py_get medications ''targetedTherapy'' (JArr []) of Inl e \<Rightarrow> Inl e | Inr c \<Rightarrow>
        (case py_add a b of Inl e \<Rightarrow> Inl e | Inr ab \<Rightarrow>
         (case py_add ab c of Inl e \<Rightarrow> Inl e | Inr abc \<Rightarrow> py_iter abc)))))"

text \<open>\<^verbatim>\<open>validate_regimen_with_fdb\<close> (lines 86-142).\<close>

definition validate_regimen_with_fdb ::
  "world \<Rightarrow> json \<Rightarrow> string \<Rightarrow> string \<Rightarrow> call list \<Rightarrow> (error + results) \<times> call list" where
  "validate_regimen_with_fdb w regimen_data client_id client_secret lg =
     (if \<not> py_truthy regimen_data then (Inr [], lg)
      else
        (case py_contains ''phase1'' regimen_data of
           Inl e \<Rightarrow> (Inl e, lg)
         | Inr False \<Rightarrow> (Inr [], lg)
         | Inr True \<Rightarrow>
             (case day1_medications regimen_data of
                Inl e \<Rightarrow> (Inl e, lg)
              | Inr medications \<Rightarrow>
                  (case all_meds medications of
                     Inl e \<Rightarrow> (Inl e, lg)
                   | Inr meds \<Rightarrow> validate_loop w client_id client_secret meds ([], lg)))))"

section \<open>Template analysis: the first tab of \<^verbatim>\<open>main\<close>\<close>

text \<open>
  An uploaded file is its name and what PyPDF2 makes of its bytes: the texts of its
  pages, or the message of the exception raised on the way (lines 68-84 catch every
  \<^verbatim>\<open>Exception\<close>).
\<close>

record uploaded_file =
  name :: string
  pages :: "string + string list"

datatype ui_event = UError string | UCode string

text \<open>
  What persists between two runs of the script is \<^verbatim>\<open>st.session_state\<close>
  (\<open>json_outputs\<close> and \<open>fdb_validation\<close>, both keyed by file name); \<open>ui\<close> collects
  the error messages shown and \<open>log\<close> the calls made to the collaborators.
\<close>

record state =
  json_outputs :: "(string \<times> json) list"
  fdb_validation :: "(string \<times> results) list"
  ui :: "ui_event list"
  log :: "call list"

text \<open>\<^verbatim>\<open>process_pdf\<close> (lines 66-84): the page texts, each followed by a newline.\<close>

definition process_pdf :: "uploaded_file \<Rightarrow> state \<Rightarrow> string \<times> state" where
  "process_pdf file st =
     (let st1 = st\<lparr>log := log st @ [Extract (name file)]\<rparr>
      in (case pages file of
            Inr ps \<Rightarrow> (concat (map (\<lambda>p. p @ [CHR 0x0A]) ps), st1)
          | Inl msg \<Rightarrow> ([], st1\<lparr>ui := ui st1 @ [UError (''Error processing PDF: '' @ msg)]\<rparr>)))"

text \<open>The prompt of line 228.\<close>

definition prompt :: "string \<Rightarrow> string" where
  "prompt pdf_text =
     ''Extract structured regimen data from this template:'' @ [CHR 0x0A, CHR 0x0A] @ pdf_text"

text \<open>
  The body of the \<^verbatim>\<open>try\<close> of lines 233-244. \<open>json_loads\<close> is \<^verbatim>\<open>json.loads\<close>: it
  returns a value or raises (\<^verbatim>\<open>JSONDecodeError\<close> on text that is not JSON,
  \<^verbatim>\<open>ValueError\<close> on an integer literal over the digit limit, \<^verbatim>\<open>RecursionError\<close> on
  nesting too deep). The result is the exception raised in the body, if any, and the
  state reached.
\<close>

definition parse_and_validate ::
  "world \<Rightarrow> (string \<Rightarrow> error + json) \<Rightarrow> string \<Rightarrow> string \<Rightarrow> uploaded_file \<Rightarrow> string
     \<Rightarrow> state \<Rightarrow> error option \<times> state" where
  "parse_and_validate w json_loads fdb_client_id fdb_client_secret file text st2 =
     (case json_loads text of
        Inl e \<Rightarrow> (Some e, st2)
      | Inr extracted_data \<Rightarrow>
          (let st3 = st2\<lparr>json_outputs :=
                 AList.update (name file) extracted_data (json_outputs st2)\<rparr>
           in if fdb_client_id \<noteq> [] \<and> fdb_client_secret \<noteq> [] then
                (case validate_regimen_with_fdb w extracted_data
                        fdb_client_id fdb_client_secret (log st3) of
                   (Inl e, lg) \<Rightarrow> (Some e, st3\<lparr>log := lg\<rparr>)
                 | (Inr validation_results, lg) \<Rightarrow>
                     (None, st3\<lparr>log := lg,
                         fdb_validation :=
                           AList.update (name file) validation_results
                             (fdb_validation st3)\<rparr>))
              else (None, st3)))"

text \<open>
  The \<^verbatim>\<open>except json.JSONDecodeError\<close> clause of lines 246-248, around the whole body: a
  \<^verbatim>\<open>JSONDecodeError\<close> raised anywhere in it (by \<^verbatim>\<open>json.loads\<close>, or by the enrichment)
  is caught, and the message and the raw reply are shown; any other exception goes on.
\<close>

definition except_json_decode_error ::
  "uploaded_file \<Rightarrow> string \<Rightarrow> error option \<times> state \<Rightarrow> error option \<times> state" where
  "except_json_decode_error file text r =
     (if fst r = Some JSONDecodeError
      then (None, (snd r)\<lparr>ui := ui (snd r) @
                     [UError (''Failed to parse JSON for '' @ name file), UCode text]\<rparr>)
      else r)"

text \<open>
  The body of the loop of line 212 for one file (lines 213-248). The result is the
  exception that leaves \<^verbatim>\<open>main\<close>, if any, and the state reached.
\<close>

definition process_file ::
  "world \<Rightarrow> (string \<Rightarrow> error + json) \<Rightarrow> string \<Rightarrow> string \<Rightarrow> uploaded_file \<Rightarrow> state
     \<Rightarrow> error option \<times> state" where
  "process_file w json_loads fdb_client_id fdb_client_secret file st =
     (if map_of (json_outputs st) (name file) \<noteq> None then (None, st)
      else
        (case process_pdf file st of (pdf_text, st1) \<Rightarrow>
           if pdf_text = [] then (None, st1)
           else
             (let st2 = st1\<lparr>log := log st1 @ [Complete (prompt pdf_text)]\<rparr>
              in (case complete w (length (log st1)) of
                    Inl e \<Rightarrow> (Some e, st2)
                  | Inr text \<Rightarrow>
                      except_json_decode_error file text
                        (parse_and_validate w json_loads fdb_client_id fdb_client_secret
                           file text st2)))))"

text \<open>The loop of line 212 over the uploaded files; an uncaught exception ends the run.\<close>

fun template_analysis ::
  "world \<Rightarrow> (string \<Rightarrow> error + json) \<Rightarrow> string \<Rightarrow> string \<Rightarrow> uploaded_file list \<Rightarrow> state
     \<Rightarrow> error option \<times> state" where
  "template_analysis w json_loads cid cs [] st = (None, st)"
| "template_analysis w json_loads cid cs (file # files) st =
     (case process_file w json_loads cid cs file st of
        (Some e, st') \<Rightarrow> (Some e, st')
      | (None, st') \<Rightarrow> template_analysis w json_loads cid cs files st')"

section \<open>Treatment calendar: the third tab of \<^verbatim>\<open>main\<close>\<close>

text \<open>
  Line 279, the cycle of the selected template, and line 280, its length:
  \<^verbatim>\<open>int(cycle_data.get('duration', {}).get('numberOfDays', 28))\<close>.
\<close>

definition regimen_cycle :: "json \<Rightarrow> error + json" where
  "regimen_cycle regimen_data =
     (case py_getitem regimen_data ''phase1'' of Inl e \<Rightarrow> Inl e | Inr p \<Rightarrow>
      (case py_getitem p ''treatmentTemplate'' of Inl e \<Rightarrow> Inl e | Inr t \<Rightarrow>
         py_getitem t ''cycle''))"

definition cycle_length :: "(string \<Rightarrow> int option) \<Rightarrow> json \<Rightarrow> error + int" where
  "cycle_length int_of_str cycle_data =
     (case py_get cycle_data ''duration'' (JObj []) of Inl e \<Rightarrow> Inl e | Inr d \<Rightarrow>
      (case py_get d ''numberOfDays'' (JInt 28) of Inl e \<Rightarrow> Inl e | Inr n \<Rightarrow>
         py_int int_of_str n))"

text \<open>
  Line 295 shows one medication as \<^verbatim>\<open>- name: dose\<close>; the model keeps the two values.
\<close>

definition med_line :: "json \<Rightarrow> error + json \<times> json" where
  "med_line med =
     (case py_getitem med ''name'' of Inl e \<Rightarrow> Inl e | Inr n \<Rightarrow>
      (case py_getitem med ''dose'' of Inl e \<Rightarrow> Inl e | Inr d \<Rightarrow> Inr (n, d)))"

text \<open>The loop of line 294 over the medications of one group.\<close>

fun med_lines :: "json list \<Rightarrow> error + (json \<times> json) list" where
  "med_lines [] = Inr []"
| "med_lines (med # meds) =
     (case med_line med of Inl e \<Rightarrow> Inl e | Inr l \<Rightarrow>
      (case med_lines meds of Inl e \<Rightarrow> Inl e | Inr ls \<Rightarrow> Inr (l # ls)))"

text \<open>Lines 293-295 for one \<^verbatim>\<open>med_type\<close>.\<close>

definition group_lines :: "json \<Rightarrow> string \<Rightarrow> error + (json \<times> json) list" where
  "group_lines medications med_type =
     (case py_contains med_type medications of
        Inl e \<Rightarrow> Inl e
      | Inr False \<Rightarrow> Inr []
      | Inr True \<Rightarrow>
          (case py_getitem medications med_type of Inl e \<Rightarrow> Inl e | Inr g \<Rightarrow>
           (case py_iter g of Inl e \<Rightarrow> Inl e | Inr meds \<Rightarrow> med_lines meds)))"

text \<open>
  Lines 290-295 for one day: the guard of line 290 lets day 1 only read the schedule,
  and it reads \<^verbatim>\<open>cycle_data['medications']['day1']\<close>.
\<close>

definition day_lines :: "json \<Rightarrow> int \<Rightarrow> error + (json \<times> json) list" where
  "day_lines cycle_data day =
     (if day = 1 then
        (case py_getitem cycle_data ''medications'' of Inl e \<Rightarrow> Inl e | Inr m \<Rightarrow>
         (case py_getitem m ''day1'' of Inl e \<Rightarrow> Inl e | Inr medications \<Rightarrow>
          (case group_lines medications ''chemotherapy'' of Inl e \<Rightarrow> Inl e | Inr cs \<Rightarrow>
           (case group_lines medications ''targetedTherapy'' of Inl e \<Rightarrow> Inl e | Inr ts \<Rightarrow>
              Inr (cs @ ts)))))
      else Inr [])"

text \<open>
  One cell of the calendar: the day of its heading (line 287), the column it is put in
  (line 285), and the medication lines under it.
\<close>

record day_entry =
  day :: int
  column :: nat
  lines :: "(json \<times> json) list"

text \<open>The loop of line 284 over the days.\<close>

fun calendar_days :: "json \<Rightarrow> int list \<Rightarrow> error + day_entry list" where
  "calendar_days cycle_data [] = Inr []"
| "calendar_days cycle_data (d # ds) =
     (case day_lines cycle_data d of Inl e \<Rightarrow> Inl e | Inr ls \<Rightarrow>
      (case calendar_days cycle_data ds of Inl e \<Rightarrow> Inl e | Inr es \<Rightarrow>
         Inr (\<lparr>day = d, column = nat (d mod 7), lines = ls\<rparr> # es)))"

text \<open>Lines 278-295: the calendar of the selected template.\<close>

definition treatment_calendar :: "(string \<Rightarrow> int option) \<Rightarrow> json \<Rightarrow> error + day_entry list" where
  "treatment_calendar int_of_str regimen_data =
     (case py_contains ''phase1'' regimen_data of
        Inl e \<Rightarrow> Inl e
      | Inr False \<Rightarrow> Inr []
      | Inr True \<Rightarrow>
          (case regimen_cycle regimen_data of Inl e \<Rightarrow> Inl e | Inr cycle_data \<Rightarrow>
           (case cycle_length int_of_str cycle_data of Inl e \<Rightarrow> Inl e | Inr n \<Rightarrow>
              calendar_days cycle_data [1..n])))"

section \<open>What an answer of the service amounts to\<close>

text \<open>
  Three readings of an answer, used to state the properties below: the request failed
  with a request-level exception (a \<^verbatim>\<open>RequestException\<close> from the transport, an HTTP
  error status, or a body that \<^verbatim>\<open>response.json()\<close> rejects with one); an exception of
  another kind escapes; or the request succeeded, with its data.
\<close>

fun request_failed :: "http_result \<Rightarrow> bool" where
  "request_failed (Raises (RequestException msg sc)) = True"
| "request_failed (Raises (OtherException e)) = False"
| "request_failed (Response code msg body) =
     ((400 \<le> code \<and> code < 600) \<or>
      (case body of Inl (RequestException m sc) \<Rightarrow> True | _ \<Rightarrow> False))"

fun escapes :: "http_result \<Rightarrow> error option" where
  "escapes (Raises (OtherException e)) = Some e"
| "escapes (Raises (RequestException msg sc)) = None"
| "escapes (Response code msg body) =
     (if 400 \<le> code \<and> code < 600 then None
      else (case body of Inl (OtherException e) \<Rightarrow> Some e | _ \<Rightarrow> None))"

fun response_data :: "http_result \<Rightarrow> json option" where
  "response_data (Raises e) = None"
| "response_data (Response code msg body) =
     (if 400 \<le> code \<and> code < 600 then None
      else (case body of Inl e \<Rightarrow> None | Inr d \<Rightarrow> Some d))"

section \<open>Properties of \<^verbatim>\<open>make_fdb_request\<close>\<close>

lemma fdb_success_fields:
  "py_getitem (fdb_success d code) ''status'' = Inr (JStr ''success'')"
  "py_getitem (fdb_success d code) ''data'' = Inr d"
  "py_getitem (fdb_success d code) ''status_code'' = Inr (JInt (int code))"
  by (simp_all add: fdb_success_def)

lemma fdb_error_fields:
  "py_getitem (fdb_error msg sc) ''status'' = Inr (JStr ''error'')"
  "py_getitem (fdb_error msg sc) ''message'' = Inr (JStr msg)"
  by (simp_all add: fdb_error_def)

lemma make_fdb_request_fst:
  "fst (make_fdb_request w ep cid cs params lg) =
     (case http w (length lg) of
        Raises e \<Rightarrow> fdb_except e
      | Response code msg body \<Rightarrow>
          if 400 \<le> code \<and> code < 600 then Inr (fdb_error msg (Some code))
          else (case body of Inl e \<Rightarrow> fdb_except e | Inr d \<Rightarrow> Inr (fdb_success d code)))"
  by (auto simp: make_fdb_request_def Let_def split: http_result.splits sum.splits)

text \<open>
  C10, as the code has it. Whatever the endpoint, the credentials and the parameters, the
  answer of the service decides the result of \<^verbatim>\<open>make_fdb_request\<close>:

  \<^item> a \<^verbatim>\<open>RequestException\<close> raised by the transport, by \<^verbatim>\<open>raise_for_status\<close> (status
    400 to 599) or by \<^verbatim>\<open>response.json()\<close> is caught, and the result is the dictionary
    with status \<open>error\<close>, the message of that exception and the status code of its
    response (\<^verbatim>\<open>None\<close> when it has none);
  \<^item> a response with another status whose body parses gives the dictionary with status
    \<open>success\<close>, the parsed data and the status code;
  \<^item> an exception that is not a \<^verbatim>\<open>RequestException\<close> is not caught: it leaves the
    function, and no dictionary is returned.

  So an exception leaves the function exactly when it is not a request exception, and a
  failed request always gives the error dictionary.
\<close>

theorem make_fdb_request_status:
  "(\<forall>msg sc. http w (length lg) = Raises (RequestException msg sc) \<longrightarrow>
        fst (make_fdb_request w ep cid cs params lg) = Inr (fdb_error msg sc)) \<and>
   (\<forall>code msg body. http w (length lg) = Response code msg body \<and> 400 \<le> code \<and> code < 600 \<longrightarrow>
        fst (make_fdb_request w ep cid cs params lg) = Inr (fdb_error msg (Some code))) \<and>
   (\<forall>code msg m sc. http w (length lg) = Response code msg (Inl (RequestException m sc)) \<and>
        \<not> (400 \<le> code \<and> code < 600) \<longrightarrow>
        fst (make_fdb_request w ep cid cs params lg) = Inr (fdb_error m sc)) \<and>
   (\<forall>code msg d. http w (length lg) = Response code msg (Inr d) \<and>
        \<not> (400 \<le> code \<and> code < 600) \<longrightarrow>
        fst (make_fdb_request w ep cid cs params lg) = Inr (fdb_success d code)) \<and>
   (\<forall>e. http w (length lg) = Raises (OtherException e) \<longrightarrow>
        fst (make_fdb_request w ep cid cs params lg) = Inl e) \<and>
   (\<forall>code msg e. http w (length lg) = Response code msg (Inl (OtherException e)) \<and>
        \<not> (400 \<le> code \<and> code < 600) \<longrightarrow>
        fst (make_fdb_request w ep cid cs params lg) = Inl e) \<and>
   (\<forall>msg sc. py_getitem (fdb_error msg sc) ''status'' = Inr (JStr ''error'') \<and>
        py_getitem (fdb_error msg sc) ''message'' = Inr (JStr msg) \<and>
        py_getitem (fdb_error msg sc) ''status_code'' =
          Inr (case sc of None \<Rightarrow> JNull | Some c \<Rightarrow> JInt (int c))) \<and>
   (\<forall>d code. py_getitem (fdb_success d code) ''status'' = Inr (JStr ''success'') \<and>
        py_getitem (fdb_success d code) ''data'' = Inr d \<and>
        py_getitem (fdb_success d code) ''status_code'' = Inr (JInt (int code))) \<and>
   (request_failed (http w (length lg)) \<longrightarrow>
        (\<exists>msg sc. fst (make_fdb_request w ep cid cs params lg) = Inr (fdb_error msg sc))) \<and>
   (\<forall>e. fst (make_fdb_request w ep cid cs params lg) = Inl e \<longleftrightarrow>
        escapes (http w (length lg)) = Some e)"
proof (intro conjI allI impI)
  show "request_failed (http w (length lg)) \<Longrightarrow>
        \<exists>msg sc. fst (make_fdb_request w ep cid cs params lg) = Inr (fdb_error msg sc)"
    by (cases "http w (length lg)" rule: escapes.cases)
       (auto simp: make_fdb_request_fst split: sum.splits exn.splits)
next
  fix e
  show "fst (make_fdb_request w ep cid cs params lg) = Inl e \<longleftrightarrow>
        escapes (http w (length lg)) = Some e"
    by (cases "http w (length lg)" rule: escapes.cases)
       (auto simp: make_fdb_request_fst split: sum.splits exn.splits)
qed (auto simp: make_fdb_request_fst fdb_error_def fdb_success_def)

text \<open>
  A run of it: the transport raises a connection error, a \<^verbatim>\<open>RequestException\<close> with no
  response; the function returns the error dictionary with that message.
\<close>

definition world_down :: world where
  "world_down =
     \<lparr>http = (\<lambda>i. Raises (RequestException ''connection refused'' None)),
      now = (\<lambda>i. ''20240101120000''),
      complete = (\<lambda>i. Inl (External ''no completion''))\<rparr>"

theorem make_fdb_request_status_witness:
  "request_failed (http world_down 0) \<and>
   fst (make_fdb_request world_down PrescribableDrugs ''id'' ''secret'' None []) =
     Inr (fdb_error ''connection refused'' None) \<and>
   py_getitem (fdb_error ''connection refused'' None) ''message'' =
     Inr (JStr ''connection refused'')"
  using make_fdb_request_status [of world_down "[]" PrescribableDrugs "''id''" "''secret''" None]
  by (simp add: world_down_def)

text \<open>
  The claim as the spec states it fails where it says that a dictionary is returned
  whatever happens: the service answers with status 200 and a body on which
  \<^verbatim>\<open>response.json()\<close> raises \<^verbatim>\<open>ValueError\<close>, the exception leaves the function, and
  there is no dictionary.
\<close>

definition world_bad_body :: world where
  "world_bad_body =
     \<lparr>http = (\<lambda>i. Response 200 ''OK'' (Inl (OtherException ValueError))),
      now = (\<lambda>i. ''20240101120000''),
      complete = (\<lambda>i. Inl (External ''no completion''))\<rparr>"

theorem other_exception_escapes_counterexample:
  "fst (make_fdb_request world_bad_body PrescribableDrugs ''id'' ''secret'' None []) =
     Inl ValueError"
  by (simp add: make_fdb_request_fst world_bad_body_def)

section \<open>One medication of the enrichment loop, call by call\<close>

text \<open>
  The request that \<^verbatim>\<open>make_fdb_request\<close> sends as call number \<open>i\<close>, and the search
  request of lines 104-115 for a medication name.
\<close>

definition the_request ::
  "world \<Rightarrow> endpoint \<Rightarrow> string \<Rightarrow> string \<Rightarrow> (string \<times> json) list option \<Rightarrow> nat \<Rightarrow> request" where
  "the_request w ep cid cs params i =
     \<lparr>req_endpoint = ep,
      req_params = AList.update ''callid'' (JStr (now w i))
         (AList.update ''callSystemName'' (JStr ''ChemoAnalyzer'')
            (case params of None \<Rightarrow> [] | Some p \<Rightarrow> p)),
      req_authorization = ''SHAREDKEY '' @ cid @ '':'' @ cs\<rparr>"

definition search_request :: "world \<Rightarrow> string \<Rightarrow> string \<Rightarrow> json \<Rightarrow> nat \<Rightarrow> request" where
  "search_request w cid cs med_name i =
     the_request w PrescribableDrugs cid cs
       (Some [(''searchtext'', med_name), (''searchtype'', JStr ''contains''),
              (''limit'', JStr ''1'')]) i"

text \<open>
  The dictionary returned for an answer that lets the function return, and what
  \<^verbatim>\<open>.get("data", {})\<close> reads from it.
\<close>

fun result_dict :: "http_result \<Rightarrow> json" where
  "result_dict (Raises (RequestException msg sc)) = fdb_error msg sc"
| "result_dict (Raises (OtherException e)) = JNull"
| "result_dict (Response code msg body) =
     (if 400 \<le> code \<and> code < 600 then fdb_error msg (Some code)
      else (case body of
              Inr d \<Rightarrow> fdb_success d code
            | Inl (RequestException m sc) \<Rightarrow> fdb_error m sc
            | Inl (OtherException e) \<Rightarrow> JNull))"

definition data_or_empty :: "http_result \<Rightarrow> json" where
  "data_or_empty r = (case response_data r of None \<Rightarrow> JObj [] | Some d \<Rightarrow> d)"

lemma make_fdb_request_nf:
  "make_fdb_request w ep cid cs params lg =
     ((case escapes (http w (length lg)) of
         Some e \<Rightarrow> Inl e
       | None \<Rightarrow> Inr (result_dict (http w (length lg)))),
      lg @ [Http (the_request w ep cid cs params (length lg))])"
  by (cases "http w (length lg)" rule: escapes.cases)
     (auto simp: make_fdb_request_def the_request_def Let_def split: sum.splits exn.splits)

lemma result_dict_success:
  "escapes r = None \<Longrightarrow> is_success (result_dict r) \<longleftrightarrow> response_data r \<noteq> None"
  by (induction r rule: result_dict.induct)
     (auto simp: is_success_def fdb_error_def fdb_success_def split: sum.splits exn.splits)

lemma result_dict_data:
  "response_data r = Some d \<Longrightarrow> py_getitem (result_dict r) ''data'' = Inr d"
  by (induction r rule: result_dict.induct)
     (auto simp: fdb_error_def fdb_success_def split: sum.splits exn.splits if_splits)

lemma result_dict_get_data:
  "escapes r = None \<Longrightarrow> get_data (result_dict r) = data_or_empty r"
  by (induction r rule: result_dict.induct)
     (auto simp: get_data_def data_or_empty_def fdb_error_def fdb_success_def
           split: sum.splits exn.splits if_splits)

text \<open>
  The loop body read against the three answers it can consume: the search at call
  \<open>n\<close>, the interactions at \<open>n + 1\<close>, the dosing at \<open>n + 2\<close>.
\<close>

lemma validate_med_nf:
  "validate_med w cid cs med (res, lg) =
     (case py_getitem med ''name'' of
        Inl e \<Rightarrow> (Inl e, lg)
      | Inr med_name \<Rightarrow>
          (let n = length lg; lg1 = lg @ [Http (search_request w cid cs med_name n)] in
           case escapes (http w n) of
             Some e \<Rightarrow> (Inl e, lg1)
           | None \<Rightarrow>
              (case response_data (http w n) of
                 None \<Rightarrow> (Inr res, lg1)
               | Some d \<Rightarrow>
                  (case first_match d of
                     Inl e \<Rightarrow> (Inl e, lg1)
                   | Inr None \<Rightarrow> (Inr res, lg1)
                   | Inr (Some (item, drug_id)) \<Rightarrow>
                      (let lg2 = lg1 @ [Http (the_request w (Interactions drug_id) cid cs None (Suc n))] in
                       case escapes (http w (Suc n)) of
                         Some e \<Rightarrow> (Inl e, lg2)
                       | None \<Rightarrow>
                          (let lg3 = lg2 @ [Http (the_request w (DoseRecords drug_id) cid cs None
                                                   (Suc (Suc n)))] in
                           case escapes (http w (Suc (Suc n))) of
                             Some e \<Rightarrow> (Inl e, lg3)
                           | None \<Rightarrow>
                              (case py_key med_name of
                                 None \<Rightarrow> (Inl TypeError, lg3)
                               | Some k \<Rightarrow>
                                  (Inr (AList.update k
                                     (entry item (data_or_empty (http w (Suc n)))
                                        (data_or_empty (http w (Suc (Suc n))))) res), lg3))))))))"
  by (auto simp: validate_med_def make_fdb_request_nf search_request_def Let_def
        result_dict_success result_dict_data result_dict_get_data
      split: sum.splits option.splits)

section \<open>Concrete regimens and worlds\<close>

definition med :: "string \<Rightarrow> string \<Rightarrow> json" where
  "med n d = JObj [(''name'', JStr n), (''dose'', JStr d)]"

text \<open>A regimen around a cycle with the given fields.\<close>

definition regimen_with :: "(string \<times> json) list \<Rightarrow> json" where
  "regimen_with cycle_fields =
     JObj [(''phase1'', JObj [(''treatmentTemplate'', JObj [(''cycle'', JObj cycle_fields)])])]"

text \<open>Day 1: Docetaxel. No duration given.\<close>

definition regimen_docetaxel :: json where
  "regimen_docetaxel =
     regimen_with
       [(''medications'',
         JObj [(''day1'', JObj [(''chemotherapy'', JArr [med ''Docetaxel'' ''75mg/m2''])])])]"

text \<open>A search that matches nothing, and a service where every request finds drug 7.\<close>

definition world_no_match :: world where
  "world_no_match =
     \<lparr>http = (\<lambda>i. Response 200 ''OK'' (Inr (JObj [(''Items'', JArr [])]))),
      now = (\<lambda>i. ''20240101120000''),
      complete = (\<lambda>i. Inl (External ''no completion''))\<rparr>"

definition drug7 :: json where
  "drug7 = JObj [(''PrescribableDrugID'', JInt 7)]"

definition world_found :: world where
  "world_found =
     \<lparr>http = (\<lambda>i. Response 200 ''OK'' (Inr (JObj [(''Items'', JArr [drug7])]))),
      now = (\<lambda>i. ''20240101120000''),
      complete = (\<lambda>i. Inl (External ''no completion''))\<rparr>"

section \<open>Enrichment when the search does not resolve\<close>

text \<open>
  C4, as the code has it. For a medication whose search fails at request level, or
  succeeds with no \<^verbatim>\<open>Items\<close> or an empty list, the loop body makes the search call and
  no other (no interactions, no dosing call) and leaves \<^verbatim>\<open>validation_results\<close> as
  it was: this occurrence records no entry, and the code has no status to record.
\<close>

theorem validate_med_unresolved:
  assumes "py_getitem m ''name'' = Inr med_name"
    and "request_failed (http w (length lg)) \<or>
         (\<exists>d. response_data (http w (length lg)) = Some d \<and> first_match d = Inr None)"
  shows "validate_med w cid cs m (res, lg) =
           (Inr res, lg @ [Http (search_request w cid cs med_name (length lg))])"
  using assms
  by (cases "http w (length lg)" rule: escapes.cases)
     (auto simp: validate_med_nf Let_def split: sum.splits exn.splits if_splits)

theorem validate_med_unresolved_witness:
  "py_getitem (med ''Docetaxel'' ''75mg/m2'') ''name'' = Inr (JStr ''Docetaxel'') \<and>
   request_failed (http world_down 0) \<and>
   validate_med world_down ''id'' ''secret'' (med ''Docetaxel'' ''75mg/m2'') ([], []) =
     (Inr [], [Http (search_request world_down ''id'' ''secret'' (JStr ''Docetaxel'') 0)])"
proof -
  have n: "py_getitem (med ''Docetaxel'' ''75mg/m2'') ''name'' = Inr (JStr ''Docetaxel'')"
    by (simp add: med_def)
  have f: "request_failed (http world_down (length ([] :: call list)))"
    by (simp add: world_down_def)
  from validate_med_unresolved [OF n disjI1 [OF f], of "''id''" "''secret''" "[]"] n f
  show ?thesis by simp
qed

text \<open>
  The claim as the spec states it fails: with the one medication Docetaxel and a search
  that fails, or one that matches nothing, the result mapping is empty; the name has no
  entry of any status.
\<close>

theorem unresolved_name_omitted_counterexample:
  "validate_regimen_with_fdb world_down regimen_docetaxel ''id'' ''secret'' [] =
     (Inr [], [Http (search_request world_down ''id'' ''secret'' (JStr ''Docetaxel'') 0)]) \<and>
   validate_regimen_with_fdb world_no_match regimen_docetaxel ''id'' ''secret'' [] =
     (Inr [], [Http (search_request world_no_match ''id'' ''secret'' (JStr ''Docetaxel'') 0)])"
  by (simp add: validate_regimen_with_fdb_def regimen_docetaxel_def regimen_with_def
        day1_medications_def all_meds_def med_def validate_med_nf first_match_def
        world_down_def world_no_match_def)

section \<open>Properties of the template analysis\<close>

fun is_http :: "call \<Rightarrow> bool" where
  "is_http (Http r) = True"
| "is_http _ = False"

text \<open>The text \<^verbatim>\<open>process_pdf\<close> returns for pages \<open>ps\<close>.\<close>

definition pdf_text_of :: "string list \<Rightarrow> string" where
  "pdf_text_of ps = concat (map (\<lambda>p. p @ [CHR 0x0A]) ps)"

lemma pdf_text_of_empty: "pdf_text_of ps = [] \<longleftrightarrow> ps = []"
  by (cases ps) (simp_all add: pdf_text_of_def)

lemma process_pdf_pages:
  "pages f = Inr ps \<Longrightarrow>
   process_pdf f st = (pdf_text_of ps, st\<lparr>log := log st @ [Extract (name f)]\<rparr>)"
  by (simp add: process_pdf_def pdf_text_of_def Let_def)

lemma process_pdf_http:
  "filter is_http (log (snd (process_pdf f st))) = filter is_http (log st)"
  by (simp add: process_pdf_def Let_def split: sum.splits)

lemma except_json_decode_error_log:
  "log (snd (except_json_decode_error f t r)) = log (snd r)"
  by (simp add: except_json_decode_error_def)

lemma parse_and_validate_no_credentials:
  assumes "cid = [] \<or> cs = []"
  shows "log (snd (parse_and_validate w loads cid cs f t st)) = log st"
  using assms by (auto simp: parse_and_validate_def Let_def split: sum.splits)

lemma process_file_no_credentials_http:
  assumes "cid = [] \<or> cs = []"
  shows "filter is_http (log (snd (process_file w loads cid cs f st))) = filter is_http (log st)"
proof (cases "process_pdf f st")
  case (Pair t st1)
  with process_pdf_http [of f st] have "filter is_http (log st1) = filter is_http (log st)"
    by simp
  with Pair show ?thesis
    by (auto simp: process_file_def Let_def except_json_decode_error_log
          parse_and_validate_no_credentials [OF assms] split: sum.splits)
qed

lemma template_analysis_no_credentials_http:
  assumes "cid = [] \<or> cs = []"
  shows "filter is_http (log (snd (template_analysis w loads cid cs files st))) =
         filter is_http (log st)"
proof (induction files arbitrary: st)
  case Nil
  show ?case by simp
next
  case (Cons f files)
  obtain r st' where p: "process_file w loads cid cs f st = (r, st')"
    by (cases "process_file w loads cid cs f st")
  with process_file_no_credentials_http [OF assms, of w loads f st]
  have h: "filter is_http (log st') = filter is_http (log st)"
    by simp
  show ?case
  proof (cases r)
    case None
    with p h Cons.IH [of st'] show ?thesis by simp
  next
    case (Some e)
    with p h show ?thesis by simp
  qed
qed

lemma process_file_fresh:
  assumes "map_of (json_outputs st) (name f) = None"
    and "pages f = Inr ps" and "ps \<noteq> []"
    and "complete w (Suc (length (log st))) = Inr raw"
  shows "process_file w loads cid cs f st =
     except_json_decode_error f raw
       (parse_and_validate w loads cid cs f raw
          (st\<lparr>log := log st @ [Extract (name f), Complete (prompt (pdf_text_of ps))]\<rparr>))"
  using assms
  by (simp add: process_file_def process_pdf_pages pdf_text_of_empty Let_def)

text \<open>
  C8. With the client id or the client secret empty, no request goes to the
  drug-knowledge service during the whole analysis, whatever the files are. And a
  document that was not stored yet, whose text is extracted and whose reply parses, ends
  with its extracted data stored under its name: no exception, the validation results
  untouched, and the calls made are the extraction and the completion.
\<close>

theorem no_credentials_skips_enrichment:
  assumes "cid = [] \<or> cs = []"
  shows "filter is_http (log (snd (template_analysis w loads cid cs files st))) =
           filter is_http (log st) \<and>
         (map_of (json_outputs st) (name f) = None \<and> pages f = Inr ps \<and> ps \<noteq> [] \<and>
          complete w (Suc (length (log st))) = Inr raw \<and> loads raw = Inr d \<longrightarrow>
          process_file w loads cid cs f st =
            (None, st\<lparr>log := log st @ [Extract (name f), Complete (prompt (pdf_text_of ps))],
                      json_outputs := AList.update (name f) d (json_outputs st)\<rparr>))"
proof
  show "filter is_http (log (snd (template_analysis w loads cid cs files st))) =
        filter is_http (log st)"
    by (rule template_analysis_no_credentials_http [OF assms])
next
  show "map_of (json_outputs st) (name f) = None \<and> pages f = Inr ps \<and> ps \<noteq> [] \<and>
        complete w (Suc (length (log st))) = Inr raw \<and> loads raw = Inr d \<longrightarrow>
        process_file w loads cid cs f st =
          (None, st\<lparr>log := log st @ [Extract (name f), Complete (prompt (pdf_text_of ps))],
                    json_outputs := AList.update (name f) d (json_outputs st)\<rparr>)"
  proof
    assume a: "map_of (json_outputs st) (name f) = None \<and> pages f = Inr ps \<and> ps \<noteq> [] \<and>
               complete w (Suc (length (log st))) = Inr raw \<and> loads raw = Inr d"
    then have "process_file w loads cid cs f st =
        (None, st\<lparr>log := log st @ [Extract (name f), Complete (prompt (pdf_text_of ps))]\<rparr>
                 \<lparr>json_outputs := AList.update (name f) d (json_outputs st)\<rparr>)"
      using assms
      by (auto simp: process_file_fresh [of st f ps w raw] parse_and_validate_def
            except_json_decode_error_def Let_def)
    then show "process_file w loads cid cs f st =
        (None, st\<lparr>log := log st @ [Extract (name f), Complete (prompt (pdf_text_of ps))],
                  json_outputs := AList.update (name f) d (json_outputs st)\<rparr>)"
      by simp
  qed
qed

text \<open>A first upload, a completion that answers with the Docetaxel regimen, no credentials.\<close>

definition state0 :: state where
  "state0 = \<lparr>json_outputs = [], fdb_validation = [], ui = [], log = []\<rparr>"

definition file_a :: uploaded_file where
  "file_a = \<lparr>name = ''a.pdf'', pages = Inr [''Cycle 1, Day 1: Docetaxel 75mg/m2'']\<rparr>"

definition world_reply :: "string \<Rightarrow> world" where
  "world_reply raw =
     \<lparr>http = (\<lambda>i. Response 200 ''OK'' (Inr (JObj [(''Items'', JArr [drug7])]))),
      now = (\<lambda>i. ''20240101120000''),
      complete = (\<lambda>i. Inr raw)\<rparr>"

theorem no_credentials_skips_enrichment_witness:
  "filter is_http
     (log (snd (template_analysis (world_reply ''{...}'') (\<lambda>s. Inr regimen_docetaxel)
                  [] ''secret'' [file_a] state0))) = [] \<and>
   process_file (world_reply ''{...}'') (\<lambda>s. Inr regimen_docetaxel) [] ''secret'' file_a state0 =
     (None, \<lparr>json_outputs = [(''a.pdf'', regimen_docetaxel)], fdb_validation = [], ui = [],
             log = [Extract ''a.pdf'',
                    Complete (prompt (pdf_text_of [''Cycle 1, Day 1: Docetaxel 75mg/m2'']))]\<rparr>)"
  using no_credentials_skips_enrichment [of "[]" "''secret''" "world_reply ''{...}''"
      "\<lambda>s. Inr regimen_docetaxel" "[file_a]" state0 file_a
      "[''Cycle 1, Day 1: Docetaxel 75mg/m2'']" "''{...}''" regimen_docetaxel]
  by (simp add: state0_def file_a_def world_reply_def)

section \<open>A reply that does not parse, and a reply that parses to anything\<close>

text \<open>
  C6, as the code has it. For a document not stored yet whose text is extracted and
  whose completion returns \<open>raw\<close>:

  \<^item> when \<^verbatim>\<open>json.loads\<close> raises \<^verbatim>\<open>JSONDecodeError\<close> on \<open>raw\<close>, nothing is stored for
    the document (both session dictionaries stay as they were, and no failure state is
    recorded either), no request goes to the drug-knowledge service, and the error
    message and \<open>raw\<close> itself, unchanged, are shown;
  \<^item> when \<^verbatim>\<open>json.loads\<close> raises another exception, nothing is stored and nothing is
    shown: the exception leaves \<^verbatim>\<open>main\<close>;
  \<^item> when \<^verbatim>\<open>json.loads\<close> returns a value, the value is stored under the document's
    name whatever its shape: there is no check for phases, cycle or medications;
  \<^item> and when the enrichment of a stored value ends with a \<^verbatim>\<open>JSONDecodeError\<close>, the same
    handler catches it: the value stays stored, and the message and \<open>raw\<close> are shown.
\<close>

theorem parse_failure_stores_nothing:
  assumes "map_of (json_outputs st) (name f) = None"
    and "pages f = Inr ps" and "ps \<noteq> []"
    and "complete w (Suc (length (log st))) = Inr raw"
  shows "(loads raw = Inl JSONDecodeError \<longrightarrow>
            process_file w loads cid cs f st =
              (None, st\<lparr>log := log st @ [Extract (name f), Complete (prompt (pdf_text_of ps))],
                        ui := ui st @ [UError (''Failed to parse JSON for '' @ name f),
                                       UCode raw]\<rparr>)) \<and>
         (\<forall>e. loads raw = Inl e \<and> e \<noteq> JSONDecodeError \<longrightarrow>
            process_file w loads cid cs f st =
              (Some e,
               st\<lparr>log := log st @ [Extract (name f), Complete (prompt (pdf_text_of ps))]\<rparr>)) \<and>
         (\<forall>d. loads raw = Inr d \<longrightarrow>
            map_of (json_outputs (snd (process_file w loads cid cs f st))) (name f) = Some d) \<and>
         (\<forall>d lg. loads raw = Inr d \<and> cid \<noteq> [] \<and> cs \<noteq> [] \<and>
            validate_regimen_with_fdb w d cid cs
                (log st @ [Extract (name f), Complete (prompt (pdf_text_of ps))]) =
              (Inl JSONDecodeError, lg) \<longrightarrow>
            process_file w loads cid cs f st =
              (None, st\<lparr>log := lg,
                        json_outputs := AList.update (name f) d (json_outputs st),
                        ui := ui st @ [UError (''Failed to parse JSON for '' @ name f),
                                       UCode raw]\<rparr>))"
proof (intro conjI allI impI)
  assume "loads raw = Inl JSONDecodeError"
  then show "process_file w loads cid cs f st =
      (None, st\<lparr>log := log st @ [Extract (name f), Complete (prompt (pdf_text_of ps))],
                ui := ui st @ [UError (''Failed to parse JSON for '' @ name f), UCode raw]\<rparr>)"
    by (simp add: process_file_fresh [OF assms] parse_and_validate_def
          except_json_decode_error_def)
next
  fix e
  assume "loads raw = Inl e \<and> e \<noteq> JSONDecodeError"
  then show "process_file w loads cid cs f st =
      (Some e, st\<lparr>log := log st @ [Extract (name f), Complete (prompt (pdf_text_of ps))]\<rparr>)"
    by (simp add: process_file_fresh [OF assms] parse_and_validate_def
          except_json_decode_error_def)
next
  fix d
  assume "loads raw = Inr d"
  then show "map_of (json_outputs (snd (process_file w loads cid cs f st))) (name f) = Some d"
    by (simp add: process_file_fresh [OF assms] parse_and_validate_def
          except_json_decode_error_def Let_def update_conv'
          split: prod.splits sum.splits)
next
  fix d lg
  assume "loads raw = Inr d \<and> cid \<noteq> [] \<and> cs \<noteq> [] \<and>
          validate_regimen_with_fdb w d cid cs
              (log st @ [Extract (name f), Complete (prompt (pdf_text_of ps))]) =
            (Inl JSONDecodeError, lg)"
  then show "process_file w loads cid cs f st =
      (None, st\<lparr>log := lg,
                json_outputs := AList.update (name f) d (json_outputs st),
                ui := ui st @ [UError (''Failed to parse JSON for '' @ name f), UCode raw]\<rparr>)"
    by (simp add: process_file_fresh [OF assms] parse_and_validate_def
          except_json_decode_error_def Let_def)
qed

theorem parse_failure_stores_nothing_witness:
  "process_file (world_reply ''not json'') (\<lambda>s. Inl JSONDecodeError) ''id'' ''secret'' file_a
       state0 =
     (None, \<lparr>json_outputs = [], fdb_validation = [],
             ui = [UError ''Failed to parse JSON for a.pdf'', UCode ''not json''],
             log = [Extract ''a.pdf'',
                    Complete (prompt (pdf_text_of [''Cycle 1, Day 1: Docetaxel 75mg/m2'']))]\<rparr>) \<and>
   process_file (world_reply ''[[[[...'') (\<lambda>s. Inl RecursionError) ''id'' ''secret'' file_a
       state0 =
     (Some RecursionError,
      \<lparr>json_outputs = [], fdb_validation = [], ui = [],
       log = [Extract ''a.pdf'',
              Complete (prompt (pdf_text_of [''Cycle 1, Day 1: Docetaxel 75mg/m2'']))]\<rparr>)"
proof -
  have a: "map_of (json_outputs state0) (name file_a) = None"
    by (simp add: state0_def)
  have b: "pages file_a = Inr [''Cycle 1, Day 1: Docetaxel 75mg/m2'']"
    by (simp add: file_a_def)
  have c: "[''Cycle 1, Day 1: Docetaxel 75mg/m2''] \<noteq> []"
    by simp
  have d: "complete (world_reply raw) (Suc (length (log state0))) = Inr raw" for raw
    by (simp add: world_reply_def)
  from parse_failure_stores_nothing [OF a b c d, of "\<lambda>s. Inl JSONDecodeError" "''not json''"
      "''id''" "''secret''"]
    parse_failure_stores_nothing [OF a b c d, of "\<lambda>s. Inl RecursionError" "''[[[[...''"
      "''id''" "''secret''"]
  show ?thesis
    by (simp add: state0_def file_a_def)
qed

text \<open>
  The claim as the spec states it fails on valid JSON that lacks the structure. The reply
  \<^verbatim>\<open>{}\<close> parses to the empty object: it is stored as the document's regimen, with an
  empty validation result and no error shown. The reply \<^verbatim>\<open>{"phase1": {}}\<close> is stored
  too, and then the enrichment raises \<^verbatim>\<open>KeyError\<close>, which nothing catches.
\<close>

theorem unstructured_json_stored_counterexample:
  "process_file (world_reply ''{}'') (\<lambda>s. Inr (JObj [])) ''id'' ''secret'' file_a state0 =
     (None, \<lparr>json_outputs = [(''a.pdf'', JObj [])], fdb_validation = [(''a.pdf'', [])],
             ui = [],
             log = [Extract ''a.pdf'',
                    Complete (prompt (pdf_text_of [''Cycle 1, Day 1: Docetaxel 75mg/m2'']))]\<rparr>) \<and>
   process_file (world_reply ''{\"phase1\": {}}'') (\<lambda>s. Inr (JObj [(''phase1'', JObj [])]))
       ''id'' ''secret'' file_a state0 =
     (Some KeyError,
      \<lparr>json_outputs = [(''a.pdf'', JObj [(''phase1'', JObj [])])], fdb_validation = [],
       ui = [],
       log = [Extract ''a.pdf'',
              Complete (prompt (pdf_text_of [''Cycle 1, Day 1: Docetaxel 75mg/m2'']))]\<rparr>)"
  by (simp add: process_file_def parse_and_validate_def except_json_decode_error_def
        process_pdf_def pdf_text_of_def state0_def file_a_def
        world_reply_def validate_regimen_with_fdb_def day1_medications_def Let_def)

section \<open>Running the analysis again\<close>




section \<open>Properties of the treatment calendar\<close>

text \<open>The cell of day \<open>d\<close> when the day-1 schedule renders as \<open>ls\<close>.\<close>

definition cell :: "(json \<times> json) list \<Rightarrow> int \<Rightarrow> day_entry" where
  "cell ls d = \<lparr>day = d, column = nat (d mod 7), lines = (if d = 1 then ls else [])\<rparr>"

text \<open>
  The medications of one group of a day schedule, read as the spec reads them: the list
  under the group's key, empty when the key is absent.
\<close>

definition group_meds :: "json \<Rightarrow> string \<Rightarrow> json list" where
  "group_meds schedule k =
     (case py_get schedule k (JArr []) of Inr (JArr xs) \<Rightarrow> xs | _ \<Rightarrow> [])"

lemma calendar_days_cells:
  assumes "1 \<in> set ds \<longrightarrow> day_lines cd 1 = Inr ls"
  shows "calendar_days cd ds = Inr (map (cell ls) ds)"
  using assms
proof (induction ds)
  case Nil
  show ?case by simp
next
  case (Cons d ds)
  then have "calendar_days cd ds = Inr (map (cell ls) ds)"
    by simp
  moreover have "day_lines cd d = Inr (if d = 1 then ls else [])"
    using Cons.prems by (simp add: day_lines_def)
  ultimately show ?case
    by (simp add: cell_def)
qed

lemma regimen_cycle_phase1:
  "regimen_cycle rd = Inr cd \<Longrightarrow> py_contains ''phase1'' rd = Inr True"
  by (cases rd) (auto simp: regimen_cycle_def split: option.splits)

lemma treatment_calendar_cells:
  assumes "regimen_cycle rd = Inr cd" and "cycle_length ios cd = Inr n"
    and "0 < n \<longrightarrow> day_lines cd 1 = Inr ls"
  shows "treatment_calendar ios rd = Inr (map (cell ls) [1..n])"
proof -
  have "1 \<in> set [1..n] \<longrightarrow> day_lines cd 1 = Inr ls"
    using assms(3) by simp
  from calendar_days_cells [OF this] show ?thesis
    by (simp add: treatment_calendar_def regimen_cycle_phase1 [OF assms(1)] assms(1,2))
qed

lemma med_lines_map: "med_lines ms = Inr ls \<Longrightarrow> map med_line ms = map Inr ls"
  by (induction ms arbitrary: ls) (auto split: sum.splits)

lemma group_lines_meds:
  assumes "map_of m k = None \<or> (\<exists>xs. map_of m k = Some (JArr xs))"
  shows "group_lines (JObj m) k = med_lines (group_meds (JObj m) k)"
  using assms by (auto simp: group_lines_def group_meds_def)

lemma sorted_wrt_less_upto: "sorted_wrt (<) [i..j]"
  by (simp add: sorted_wrt_iff_nth_less)

text \<open>
  C1, as the code has it. For a regimen whose cycle has length \<open>n\<close> and whose day-1
  schedule renders (as \<open>ls\<close>), the calendar has one cell per day of \<open>1..n\<close>, in
  increasing order and without duplicates (none for \<open>n \<le> 0\<close>). The cell of day 1
  carries the lines of the day-1 schedule, which are the name and dose of each
  chemotherapy medication followed by each targetedTherapy medication, in order; the
  cell of every other day is empty, whatever the regimen schedules for that day.
\<close>

theorem calendar_projection:
  assumes "regimen_cycle rd = Inr cd" and "cycle_length ios cd = Inr n"
    and "0 < n \<longrightarrow> day_lines cd 1 = Inr ls"
  shows "\<exists>es. treatment_calendar ios rd = Inr es \<and>
           map day es = [1..n] \<and> length es = nat n \<and>
           sorted_wrt (<) (map day es) \<and> distinct (map day es) \<and>
           (\<forall>e \<in> set es. lines e = (if day e = 1 then ls else []) \<and>
                          column e = nat (day e mod 7)) \<and>
           (\<forall>ms m. 0 < n \<and> py_getitem cd ''medications'' = Inr ms \<and>
                  py_getitem ms ''day1'' = Inr (JObj m) \<and>
                  (map_of m ''chemotherapy'' = None \<or>
                     (\<exists>xs. map_of m ''chemotherapy'' = Some (JArr xs))) \<and>
                  (map_of m ''targetedTherapy'' = None \<or>
                     (\<exists>xs. map_of m ''targetedTherapy'' = Some (JArr xs))) \<longrightarrow>
              map med_line (group_meds (JObj m) ''chemotherapy'' @
                            group_meds (JObj m) ''targetedTherapy'') = map Inr ls)"
proof (intro exI conjI)
  show "treatment_calendar ios rd = Inr (map (cell ls) [1..n])"
    by (rule treatment_calendar_cells [OF assms])
  have d: "map day (map (cell ls) [1..n]) = [1..n]"
    by (simp add: cell_def comp_def)
  show "map day (map (cell ls) [1..n]) = [1..n]"
    by (rule d)
  show "length (map (cell ls) [1..n]) = nat n"
    by simp
  show "sorted_wrt (<) (map day (map (cell ls) [1..n]))"
    unfolding d by (rule sorted_wrt_less_upto)
  show "distinct (map day (map (cell ls) [1..n]))"
    unfolding d by simp
  show "\<forall>e \<in> set (map (cell ls) [1..n]).
          lines e = (if day e = 1 then ls else []) \<and> column e = nat (day e mod 7)"
    by (simp add: cell_def)
  show "\<forall>ms m. 0 < n \<and> py_getitem cd ''medications'' = Inr ms \<and>
          py_getitem ms ''day1'' = Inr (JObj m) \<and>
          (map_of m ''chemotherapy'' = None \<or>
             (\<exists>xs. map_of m ''chemotherapy'' = Some (JArr xs))) \<and>
          (map_of m ''targetedTherapy'' = None \<or>
             (\<exists>xs. map_of m ''targetedTherapy'' = Some (JArr xs))) \<longrightarrow>
          map med_line (group_meds (JObj m) ''chemotherapy'' @
                        group_meds (JObj m) ''targetedTherapy'') = map Inr ls"
  proof (intro allI impI, elim conjE)
    fix ms m
    assume n: "0 < n" and ms: "py_getitem cd ''medications'' = Inr ms"
      and m: "py_getitem ms ''day1'' = Inr (JObj m)"
      and c: "map_of m ''chemotherapy'' = None \<or>
              (\<exists>xs. map_of m ''chemotherapy'' = Some (JArr xs))"
      and t: "map_of m ''targetedTherapy'' = None \<or>
              (\<exists>xs. map_of m ''targetedTherapy'' = Some (JArr xs))"
    from n assms(3) have "day_lines cd 1 = Inr ls"
      by simp
    then obtain cls tls where
      "med_lines (group_meds (JObj m) ''chemotherapy'') = Inr cls"
      "med_lines (group_meds (JObj m) ''targetedTherapy'') = Inr tls"
      "ls = cls @ tls"
      by (auto simp: day_lines_def ms m group_lines_meds [OF c] group_lines_meds [OF t]
               split: sum.splits)
    then show "map med_line (group_meds (JObj m) ''chemotherapy'' @
                             group_meds (JObj m) ''targetedTherapy'') = map Inr ls"
      by (simp add: med_lines_map)
  qed
qed

text \<open>Two days: Docetaxel on day 1, Cisplatin on day 2.\<close>

definition two_days :: "(string \<times> json) list" where
  "two_days =
     [(''day1'', JObj [(''chemotherapy'', JArr [med ''Docetaxel'' ''75mg/m2''])]),
      (''day2'', JObj [(''chemotherapy'', JArr [med ''Cisplatin'' ''100mg/m2''])])]"

definition regimen_two_days :: json where
  "regimen_two_days =
     regimen_with [(''duration'', JObj [(''numberOfDays'', JInt 2)]),
                   (''medications'', JObj two_days)]"

theorem calendar_projection_witness:
  "treatment_calendar (\<lambda>s. None) regimen_two_days =
     Inr [\<lparr>day = 1, column = 1, lines = [(JStr ''Docetaxel'', JStr ''75mg/m2'')]\<rparr>,
          \<lparr>day = 2, column = 2, lines = []\<rparr>]"
proof -
  let ?cd = "JObj [(''duration'', JObj [(''numberOfDays'', JInt 2)]),
                   (''medications'', JObj two_days)]"
  let ?ls = "[(JStr ''Docetaxel'', JStr ''75mg/m2'')]"
  have a: "regimen_cycle regimen_two_days = Inr ?cd"
    by (simp add: regimen_two_days_def regimen_with_def regimen_cycle_def)
  have b: "cycle_length (\<lambda>s. None) ?cd = Inr 2"
    by (simp add: cycle_length_def)
  have c: "(0::int) < 2 \<longrightarrow> day_lines ?cd 1 = Inr ?ls"
    by (simp add: day_lines_def two_days_def group_lines_def med_def med_line_def)
  from calendar_projection [OF a b c] obtain es where
    es: "treatment_calendar (\<lambda>s. None) regimen_two_days = Inr es"
      "map day es = [1..2]"
      "\<forall>e \<in> set es. lines e = (if day e = 1 then ?ls else []) \<and> column e = nat (day e mod 7)"
    by blast
  from es(2) obtain e1 e2 where e: "es = [e1, e2]" "day e1 = 1" "day e2 = 2"
    by (auto simp: upto_rec1 [of 1 2] upto_rec1 [of 2 2] map_eq_Cons_conv)
  with es(3) have "e1 = \<lparr>day = 1, column = 1, lines = ?ls\<rparr>" "e2 = \<lparr>day = 2, column = 2, lines = []\<rparr>"
    by auto
  with es(1) e show ?thesis by simp
qed

text \<open>
  The claim as the spec states it fails on day 2: the regimen schedules Cisplatin there,
  and the cell of day 2 is empty.
\<close>

theorem later_day_empty_counterexample:
  "map_of two_days ''day2'' =
     Some (JObj [(''chemotherapy'', JArr [med ''Cisplatin'' ''100mg/m2''])]) \<and>
   treatment_calendar (\<lambda>s. None) regimen_two_days =
     Inr [\<lparr>day = 1, column = 1, lines = [(JStr ''Docetaxel'', JStr ''75mg/m2'')]\<rparr>,
          \<lparr>day = 2, column = 2, lines = []\<rparr>]"
  by (simp add: treatment_calendar_def regimen_two_days_def regimen_with_def regimen_cycle_def
        cycle_length_def day_lines_def two_days_def group_lines_def med_def med_line_def
        upto_rec1 [of 1 2] upto_rec1 [of 2 2])




section \<open>Keys and search calls of the enrichment\<close>

text \<open>
  The key under which a medication is recorded (\<open>None\<close> when it has no name or an
  unhashable one), the search calls for a given name, and an answer to a search that
  resolves to a first item with an identifier.
\<close>

definition med_key :: "json \<Rightarrow> pykey option" where
  "med_key m = (case py_getitem m ''name'' of Inl e \<Rightarrow> None | Inr n \<Rightarrow> py_key n)"

fun is_search_for :: "json \<Rightarrow> call \<Rightarrow> bool" where
  "is_search_for n (Http r) =
     (req_endpoint r = PrescribableDrugs \<and> map_of (req_params r) ''searchtext'' = Some n)"
| "is_search_for n _ = False"


text \<open>How many medications of a list carry the name \<open>n\<close>.\<close>

definition occurrences :: "json \<Rightarrow> json list \<Rightarrow> nat" where
  "occurrences n meds = length (filter (\<lambda>m. py_getitem m ''name'' = Inr n) meds)"

lemma is_search_for_search [simp]:
  "is_search_for n (Http (search_request w cid cs nm i)) \<longleftrightarrow> nm = n"
  by (auto simp: search_request_def the_request_def)

lemma is_search_for_other [simp]:
  "ep \<noteq> PrescribableDrugs \<Longrightarrow> \<not> is_search_for n (Http (the_request w ep cid cs params i))"
  by (simp add: the_request_def)

declare is_search_for.simps [simp del]

lemma validate_med_no_name:
  "py_getitem m ''name'' = Inl e \<Longrightarrow> validate_med w cid cs m (res, lg) = (Inl e, lg)"
  by (simp add: validate_med_nf)

lemma validate_med_searches:
  assumes "py_getitem m ''name'' = Inr nm"
  shows "length (filter (is_search_for n) (snd (validate_med w cid cs m (res, lg)))) =
         length (filter (is_search_for n) lg) + (if nm = n then 1 else 0)"
  using assms
  by (auto simp: validate_med_nf Let_def split: sum.splits option.splits)

lemma validate_med_result:
  assumes "validate_med w cid cs m (res, lg) = (Inr res', lg')"
  shows "res' = res \<or> (\<exists>k v. med_key m = Some k \<and> res' = AList.update k v res)"
  using assms
  by (auto simp: validate_med_nf med_key_def Let_def split: sum.splits option.splits)

lemma validate_loop_searches_le:
  "length (filter (is_search_for n) (snd (validate_loop w cid cs meds (res, lg)))) \<le>
   length (filter (is_search_for n) lg) + occurrences n meds"
proof (induction meds arbitrary: res lg)
  case Nil
  show ?case by (simp add: occurrences_def)
next
  case (Cons m meds)
  show ?case
  proof (cases "py_getitem m ''name''")
    case (Inl e)
    then show ?thesis
      by (simp add: validate_med_no_name occurrences_def)
  next
    case (Inr nm)
    obtain r lg1 where s: "validate_med w cid cs m (res, lg) = (r, lg1)"
      by (cases "validate_med w cid cs m (res, lg)")
    from validate_med_searches [OF Inr, of n w cid cs res lg] s
    have c: "length (filter (is_search_for n) lg1) =
             length (filter (is_search_for n) lg) + (if nm = n then 1 else 0)"
      by simp
    show ?thesis
    proof (cases r)
      case (Inl e)
      with s c Inr show ?thesis
        by (simp add: occurrences_def)
    next
      case r: (Inr res1)
      from Cons.IH [of res1 lg1] s c r Inr show ?thesis
        by (auto simp: occurrences_def)
    qed
  qed
qed

lemma validate_loop_searches:
  assumes "validate_loop w cid cs meds (res, lg) = (Inr res', lg')"
  shows "length (filter (is_search_for n) lg') =
         length (filter (is_search_for n) lg) + occurrences n meds"
  using assms
proof (induction meds arbitrary: res lg)
  case Nil
  then show ?case by (simp add: occurrences_def)
next
  case (Cons m meds)
  obtain r lg1 where s: "validate_med w cid cs m (res, lg) = (r, lg1)"
    by (cases "validate_med w cid cs m (res, lg)")
  with Cons.prems obtain res1 where r: "r = Inr res1"
    by (cases r) auto
  from s r obtain nm where nm: "py_getitem m ''name'' = Inr nm"
    by (cases "py_getitem m ''name''") (auto simp: validate_med_no_name)
  from validate_med_searches [OF nm, of n w cid cs res lg] s
  have c: "length (filter (is_search_for n) lg1) =
           length (filter (is_search_for n) lg) + (if nm = n then 1 else 0)"
    by simp
  from Cons.prems s r have "validate_loop w cid cs meds (res1, lg1) = (Inr res', lg')"
    by simp
  from Cons.IH [OF this] c nm show ?case
    by (auto simp: occurrences_def)
qed

lemma subset_chain: "B \<subseteq> A \<union> {x} \<Longrightarrow> C \<subseteq> B \<union> M \<Longrightarrow> C \<subseteq> A \<union> ({x} \<union> M)"
  by blast

lemma validate_loop_keys:
  assumes "validate_loop w cid cs meds (res, lg) = (Inr res', lg')"
  shows "Some ` fst ` set res' \<subseteq> Some ` fst ` set res \<union> med_key ` set meds"
  using assms
proof (induction meds arbitrary: res lg)
  case Nil
  then show ?case by simp
next
  case (Cons m meds)
  obtain r lg1 where s: "validate_med w cid cs m (res, lg) = (r, lg1)"
    by (cases "validate_med w cid cs m (res, lg)")
  with Cons.prems obtain res1 where r: "r = Inr res1"
    by (cases r) auto
  from validate_med_result [of w cid cs m res lg res1 lg1] s r
  have "res1 = res \<or> (\<exists>k v. med_key m = Some k \<and> res1 = AList.update k v res)"
    by simp
  then have a: "Some ` fst ` set res1 \<subseteq> Some ` fst ` set res \<union> {med_key m}"
  proof
    assume "res1 = res"
    then show ?thesis by auto
  next
    assume "\<exists>k v. med_key m = Some k \<and> res1 = AList.update k v res"
    then obtain k v where k: "med_key m = Some k" "res1 = AList.update k v res"
      by blast
    have "fst ` set (AList.update k v res) = {k} \<union> fst ` set res"
      by (rule dom_update)
    with k show ?thesis by auto
  qed
  from Cons.prems s r have "validate_loop w cid cs meds (res1, lg1) = (Inr res', lg')"
    by simp
  from Cons.IH [OF this]
  have b: "Some ` fst ` set res' \<subseteq> Some ` fst ` set res1 \<union> med_key ` set meds" .
  have e: "med_key ` set (m # meds) = {med_key m} \<union> med_key ` set meds"
    by simp
  from subset_chain [OF a b] show ?case
    unfolding e .
qed

lemma validate_regimen_loop:
  assumes "day1_medications rd = Inr sched" and "all_meds sched = Inr meds"
  shows "validate_regimen_with_fdb w rd cid cs lg = validate_loop w cid cs meds ([], lg)"
proof -
  from assms(1) obtain kvs where "rd = JObj kvs" "map_of kvs ''phase1'' \<noteq> None"
    by (cases rd) (auto simp: day1_medications_def split: option.splits)
  then have "py_truthy rd" "py_contains ''phase1'' rd = Inr True"
    by auto
  with assms show ?thesis
    by (simp add: validate_regimen_with_fdb_def)
qed

text \<open>
  C2, as the code has it. The key of an entry is the key of a day-1 medication's name as
  extracted: nothing normalises case or whitespace, so occurrences share an entry exactly
  when their names are the same dict key. And the search is sent once per occurrence: in
  a run that returns, the number of searches for a name is the number of day-1
  medications carrying it (never more, when an exception ends the run).
\<close>

theorem enrichment_keys_and_searches:
  assumes "day1_medications rd = Inr sched" and "all_meds sched = Inr meds"
  shows "length (filter (is_search_for n) (snd (validate_regimen_with_fdb w rd cid cs lg))) \<le>
           length (filter (is_search_for n) lg) + occurrences n meds \<and>
         (\<forall>res lg'. validate_regimen_with_fdb w rd cid cs lg = (Inr res, lg') \<longrightarrow>
            length (filter (is_search_for n) lg') =
              length (filter (is_search_for n) lg) + occurrences n meds \<and>
            Some ` fst ` set res \<subseteq> med_key ` set meds)"
proof (intro conjI allI impI)
  show "length (filter (is_search_for n) (snd (validate_regimen_with_fdb w rd cid cs lg))) \<le>
        length (filter (is_search_for n) lg) + occurrences n meds"
    by (simp add: validate_regimen_loop [OF assms] validate_loop_searches_le)
next
  fix res lg'
  assume "validate_regimen_with_fdb w rd cid cs lg = (Inr res, lg')"
  then have l: "validate_loop w cid cs meds ([], lg) = (Inr res, lg')"
    by (simp add: validate_regimen_loop [OF assms])
  from validate_loop_searches [OF l]
  show "length (filter (is_search_for n) lg') =
        length (filter (is_search_for n) lg) + occurrences n meds" .
  from validate_loop_keys [OF l] show "Some ` fst ` set res \<subseteq> med_key ` set meds"
    by simp
qed

text \<open>Day 1: Docetaxel, DOCETAXEL and Docetaxel again.\<close>

definition three_meds :: "json list" where
  "three_meds = [med ''Docetaxel'' ''75mg/m2'', med ''DOCETAXEL'' ''75mg/m2'',
                 med ''Docetaxel'' ''75mg/m2'']"

definition regimen_repeated :: json where
  "regimen_repeated =
     regimen_with
       [(''medications'', JObj [(''day1'', JObj [(''chemotherapy'', JArr three_meds)])])]"

definition found :: json where
  "found = JObj [(''Items'', JArr [drug7])]"

lemma first_match_found: "first_match found = Inr (Some (drug7, JInt 7))"
  by (simp add: first_match_def found_def drug7_def)

lemma world_found_answers:
  "escapes (http world_found i) = None"
  "response_data (http world_found i) = Some found"
  "data_or_empty (http world_found i) = found"
  by (simp_all add: world_found_def found_def data_or_empty_def)

lemma regimen_repeated_meds:
  "day1_medications regimen_repeated = Inr (JObj [(''chemotherapy'', JArr three_meds)])"
  "all_meds (JObj [(''chemotherapy'', JArr three_meds)]) = Inr three_meds"
  by (simp_all add: regimen_repeated_def regimen_with_def day1_medications_def all_meds_def)

lemma validate_med_found:
  "validate_med world_found cid cs (med n d) (res, lg) =
     (Inr (AList.update (KStr n) (entry drug7 found found) res),
      lg @ [Http (search_request world_found cid cs (JStr n) (length lg)),
            Http (the_request world_found (Interactions (JInt 7)) cid cs None (Suc (length lg))),
            Http (the_request world_found (DoseRecords (JInt 7)) cid cs None
                    (Suc (Suc (length lg))))])"
  by (simp add: validate_med_nf med_def world_found_answers first_match_found Let_def)

lemma validate_repeated:
  "fst (validate_regimen_with_fdb world_found regimen_repeated ''id'' ''secret'' []) =
     Inr [(KStr ''Docetaxel'', entry drug7 found found),
          (KStr ''DOCETAXEL'', entry drug7 found found)]"
  by (simp add: validate_regimen_loop [OF regimen_repeated_meds] three_meds_def
        validate_med_found)

theorem enrichment_keys_and_searches_witness:
  "length (filter (is_search_for (JStr ''Docetaxel''))
      (snd (validate_regimen_with_fdb world_found regimen_repeated ''id'' ''secret'' []))) = 2"
proof -
  obtain res lg' where
    r: "validate_regimen_with_fdb world_found regimen_repeated ''id'' ''secret'' [] = (res, lg')"
    by (cases "validate_regimen_with_fdb world_found regimen_repeated ''id'' ''secret'' []")
  with validate_repeated have "res = Inr [(KStr ''Docetaxel'', entry drug7 found found),
          (KStr ''DOCETAXEL'', entry drug7 found found)]"
    by simp
  with r enrichment_keys_and_searches [OF regimen_repeated_meds,
      of "JStr ''Docetaxel''" world_found "''id''" "''secret''" "[]"]
  show ?thesis
    by (simp add: occurrences_def three_meds_def med_def)
qed

text \<open>
  The claim as the spec states it fails: Docetaxel and DOCETAXEL differ only in case and
  get an entry each, and the name Docetaxel, which occurs twice, is searched twice.
\<close>

theorem no_normalisation_counterexample:
  "fst (validate_regimen_with_fdb world_found regimen_repeated ''id'' ''secret'' []) =
     Inr [(KStr ''Docetaxel'', entry drug7 found found),
          (KStr ''DOCETAXEL'', entry drug7 found found)] \<and>
   length (filter (is_search_for (JStr ''Docetaxel''))
      (snd (validate_regimen_with_fdb world_found regimen_repeated ''id'' ''secret'' []))) = 2"
  by (simp add: validate_regimen_loop [OF regimen_repeated_meds] three_meds_def
        validate_med_found)

section \<open>Which names the enrichment covers\<close>












section \<open>The loop body, branch by branch\<close>


text \<open>The log after one, two and three calls of the loop body started at log \<open>lg\<close>.\<close>

definition log1 :: "world \<Rightarrow> string \<Rightarrow> string \<Rightarrow> json \<Rightarrow> call list \<Rightarrow> call list" where
  "log1 w cid cs nm lg = lg @ [Http (search_request w cid cs nm (length lg))]"

definition log2 :: "world \<Rightarrow> string \<Rightarrow> string \<Rightarrow> json \<Rightarrow> json \<Rightarrow> call list \<Rightarrow> call list" where
  "log2 w cid cs nm drug_id lg =
     log1 w cid cs nm lg @
       [Http (the_request w (Interactions drug_id) cid cs None (Suc (length lg)))]"

definition log3 :: "world \<Rightarrow> string \<Rightarrow> string \<Rightarrow> json \<Rightarrow> json \<Rightarrow> call list \<Rightarrow> call list" where
  "log3 w cid cs nm drug_id lg =
     log2 w cid cs nm drug_id lg @
       [Http (the_request w (DoseRecords drug_id) cid cs None (Suc (Suc (length lg))))]"









section \<open>The effect of one medication on the result\<close>











lemma log_lengths [simp]:
  "length (log1 w cid cs nm lg) = Suc (length lg)"
  "length (log2 w cid cs nm drug_id lg) = Suc (Suc (length lg))"
  "length (log3 w cid cs nm drug_id lg) = Suc (Suc (Suc (length lg)))"
  by (simp_all add: log1_def log2_def log3_def)


lemma log_first [simp]:
  "log1 w cid cs nm lg ! length lg = Http (search_request w cid cs nm (length lg))"
  "log2 w cid cs nm drug_id lg ! length lg = Http (search_request w cid cs nm (length lg))"
  "log3 w cid cs nm drug_id lg ! length lg = Http (search_request w cid cs nm (length lg))"
  by (simp_all add: log1_def log2_def log3_def nth_append)

lemma log3_later [simp]:
  "log3 w cid cs nm drug_id lg ! Suc (length lg) =
     Http (the_request w (Interactions drug_id) cid cs None (Suc (length lg)))"
  "log3 w cid cs nm drug_id lg ! Suc (Suc (length lg)) =
     Http (the_request w (DoseRecords drug_id) cid cs None (Suc (Suc (length lg))))"
  by (simp_all add: log1_def log2_def log3_def nth_append)










section \<open>Two worlds that differ in the answer to one call\<close>

text \<open>A call is a search; the entry field that a call fills.\<close>

fun is_search :: "call \<Rightarrow> bool" where
  "is_search (Http r) = (req_endpoint r = PrescribableDrugs)"
| "is_search c = False"

fun field_of :: "call \<Rightarrow> string" where
  "field_of (Http r) =
     (case req_endpoint r of
        PrescribableDrugs \<Rightarrow> ''drug_info''
      | Interactions i \<Rightarrow> ''interactions''
      | DoseRecords i \<Rightarrow> ''dosing'')"
| "field_of c = []"




lemma is_search_search_request [simp]: "is_search (Http (search_request w cid cs nm i))"
  by (simp add: search_request_def the_request_def)

lemma field_of_requests [simp]:
  "field_of (Http (the_request w (Interactions d) cid cs params i)) = ''interactions''"
  "field_of (Http (the_request w (DoseRecords d) cid cs params i)) = ''dosing''"
  by (simp_all add: the_request_def)

declare is_search.simps [simp del] field_of.simps [simp del]



section \<open>The loop in two worlds\<close>


declare validate_loop.simps(2) [simp del]










section \<open>A failed interactions or dosing call\<close>



lemma is_search_requests [simp]:
  "\<not> is_search (Http (the_request w (Interactions d) cid cs params i))"
  "\<not> is_search (Http (the_request w (DoseRecords d) cid cs params i))"
  by (simp_all add: is_search.simps the_request_def)












end
